theory Spec2Isabelle
  imports Main "HOL-Library.Word"
begin

section \<open>SubtleCrypto: the dispatcher of src/SubtleCrypto.js\<close>

text \<open>
  The class \<open>SubtleCrypto\<close> normalizes an algorithm descriptor, validates the key and
  calls a method of the normalized algorithm object (the provider). The embedding keeps
  the dispatcher's control flow as it is written and makes three things explicit:
  \<^item> what the provider does is a parameter (a record of functions, one per method);
  \<^item> every provider call that is reached is written to a log, with its receiver and
    its arguments in the order of the source;
  \<^item> a promise is represented by the state it ends in, and a synchronous exception of
    a method by the outcome \<open>Thrown\<close>.
\<close>

subsection \<open>Values\<close>

type_synonym bytes = "8 word list"

text \<open>A loosely typed value of the caller: an algorithm identifier, a flag.\<close>

datatype jsval =
    JUndefined
  | JNull
  | JBoolean bool
  | JNumber int
  | JString string
  | JObject "(string \<times> jsval) list"

text \<open>
  The errors of the source: \<open>InvalidAccessError\<close> and \<open>NotSupportedError\<close> of
  ./errors, the built-in \<open>SyntaxError\<close> and \<open>TypeError\<close> with the message the source
  gives them (\<open>new TypeError()\<close> has the empty message). \<open>RuntimeTypeError\<close> is a
  \<open>TypeError\<close> raised by the language itself (a call of something that is not a
  function, a property read on \<open>undefined\<close>); its message depends on the engine.
  \<open>ProviderError\<close> stands for any other error object a collaborator raises.
\<close>

datatype error =
    InvalidAccessError string
  | NotSupportedError string
  | SyntaxError
  | TypeError string
  | RuntimeTypeError
  | ProviderError string

text \<open>
  A normalized algorithm: the object \<open>supportedAlgorithms.normalize\<close> returns and the
  object stored in \<open>key.algorithm\<close>. \<open>methods\<close> lists the properties of the object
  that are functions; \<open>params\<close> holds its other properties, the algorithm-specific
  fields.
\<close>

record algorithm =
  name :: string
  methods :: "string list"
  params :: jsval

text \<open>
  ./keys/CryptoKey. \<open>extractable\<close> is kept loosely typed, as the source compares it
  with \<open>=== false\<close>; \<open>usages\<close> is \<open>None\<close> when the property is undefined.
\<close>

record CryptoKey =
  type :: string
  extractable :: jsval
  algorithm :: algorithm
  usages :: "string list option"
  handle :: bytes

record CryptoKeyPair =
  publicKey :: CryptoKey
  privateKey :: CryptoKey

text \<open>An instance of ./keys/JsonWebKey: its members.\<close>

type_synonym jwk = "(string \<times> jsval) list"

text \<open>
  A \<open>BufferSource\<close> argument (\<open>data\<close>, \<open>signature\<close>): an ArrayBuffer or a typed
  array, which have a \<open>slice\<close> function; a DataView, which is a BufferSource and has
  none; or nothing, when the argument is omitted and the parameter is undefined.
  Values that are no BufferSource and have a \<open>slice\<close> of their own (a string, an
  array) are left out.
\<close>

datatype buffersource = Buffer bytes | DataView bytes | Missing

text \<open>
  The \<open>keyData\<close> argument of \<open>importKey\<close>: \<open>BufferSource|JWK\<close> (\<open>KBytes\<close> an
  ArrayBuffer or a typed array, \<open>KDataView\<close> a DataView), or anything else.
\<close>

datatype keydata = KBytes bytes | KDataView bytes | KJwk jwk | KOther jsval

text \<open>What a provider's \<open>generateKey\<close> and \<open>exportKey\<close> return.\<close>

datatype generated = GKey CryptoKey | GPair CryptoKeyPair | GOther jsval

datatype exported = EBytes bytes | EJwk jwk

subsection \<open>Promises and provider calls\<close>

datatype 'a settled = Pending | Fulfilled 'a | Rejected error

text \<open>What a call of a method of SubtleCrypto does: it throws, or it returns a promise.\<close>

datatype 'a outcome = Thrown error | Promise "'a settled"

text \<open>
  What a call of a provider method does: it returns a value, it returns a promise
  (a thenable), or it throws.
\<close>

datatype 'a completion = Returns 'a | ReturnsPromise "'a settled" | Throws error

text \<open>
  What the executor passed to \<open>new Promise\<close> does before it returns: it calls
  \<open>resolve\<close> with a value or with a promise, it calls \<open>reject\<close>, it throws, or it
  returns having called neither.
\<close>

datatype 'a executor =
    Resolve 'a
  | ResolvePromise "'a settled"
  | Reject error
  | Throw error
  | Return

text \<open>
  The constructor of the language (ECMA-262, Promise ( executor )): without a callable
  executor it throws a TypeError; an exception of the executor rejects the promise;
  \<open>resolve\<close> called with a promise makes the new promise follow it.
\<close>

fun new_Promise :: "'a executor option \<Rightarrow> 'a outcome" where
  "new_Promise None = Thrown RuntimeTypeError"
| "new_Promise (Some (Resolve v)) = Promise (Fulfilled v)"
| "new_Promise (Some (ResolvePromise p)) = Promise p"
| "new_Promise (Some (Reject e)) = Promise (Rejected e)"
| "new_Promise (Some (Throw e)) = Promise (Rejected e)"
| "new_Promise (Some Return) = Promise Pending"

definition Promise_reject :: "error \<Rightarrow> 'a outcome" where
  "Promise_reject e = Promise (Rejected e)"

text \<open>An argument of a provider call.\<close>

datatype arg =
    AVal jsval
  | AAlg algorithm
  | AKey CryptoKey
  | ABytes bytes
  | AFormat string
  | AKeyData keydata
  | AUsages "string list"

text \<open>\<open>method_name\<close> is the property of the receiver that is called.\<close>

record call =
  receiver :: algorithm
  method_name :: string
  args :: "arg list"

text \<open>
  The call \<open>receiver.method(args)\<close>: when the receiver has no such function the
  language throws and nothing is invoked; otherwise the call is logged and completes
  as the provider decides.
\<close>

definition invoke ::
  "algorithm \<Rightarrow> string \<Rightarrow> arg list \<Rightarrow> 'a completion \<Rightarrow> 'a completion \<times> call list" where
  "invoke r m as c =
     (if m \<in> set (methods r)
      then (c, [\<lparr>receiver = r, method_name = m, args = as\<rparr>])
      else (Throws RuntimeTypeError, []))"

text \<open>
  \<open>let x = call(); resolve(x)\<close> inside an executor without try/catch: an exception
  leaves the executor.
\<close>

fun resolve_call :: "'a completion \<Rightarrow> 'a executor" where
  "resolve_call (Returns v) = Resolve v"
| "resolve_call (ReturnsPromise p) = ResolvePromise p"
| "resolve_call (Throws e) = Throw e"

text \<open>The same inside \<open>try { ... } catch (error) { return reject(error) }\<close>.\<close>

fun try_resolve_call :: "'a completion \<Rightarrow> 'a executor" where
  "try_resolve_call (Returns v) = Resolve v"
| "try_resolve_call (ReturnsPromise p) = ResolvePromise p"
| "try_resolve_call (Throws e) = Reject e"

text \<open>
  \<open>data.slice()\<close>: of an ArrayBuffer or a typed array a copy with the same content; a
  DataView has no \<open>slice\<close> and \<open>undefined\<close> has no properties, so the call throws.
\<close>

fun slice :: "buffersource \<Rightarrow> error + bytes" where
  "slice (Buffer b) = Inr b"
| "slice (DataView b) = Inl RuntimeTypeError"
| "slice Missing = Inl RuntimeTypeError"

subsection \<open>The collaborators\<close>

text \<open>
  ./algorithms (\<open>supportedAlgorithms\<close>): \<open>normalize op alg\<close> returns an Error object
  or a normalized algorithm; \<open>registered op n\<close> says that
  \<open>supportedAlgorithms[op][n]\<close> is truthy.
\<close>

record supportedAlgorithms =
  normalize :: "string \<Rightarrow> jsval \<Rightarrow> error + algorithm"
  registered :: "string \<Rightarrow> string \<Rightarrow> bool"

text \<open>
  The methods of the normalized algorithm objects. Each takes the receiver first, then
  the arguments of the call.
\<close>

record provider =
  provider_encrypt :: "algorithm \<Rightarrow> jsval \<Rightarrow> CryptoKey \<Rightarrow> bytes \<Rightarrow> bytes completion"
  provider_decrypt :: "algorithm \<Rightarrow> jsval \<Rightarrow> CryptoKey \<Rightarrow> bytes \<Rightarrow> bytes completion"
  provider_sign :: "algorithm \<Rightarrow> CryptoKey \<Rightarrow> bytes \<Rightarrow> bytes completion"
  provider_verify :: "algorithm \<Rightarrow> CryptoKey \<Rightarrow> bytes \<Rightarrow> bytes \<Rightarrow> bool completion"
  provider_digest :: "algorithm \<Rightarrow> jsval \<Rightarrow> bytes \<Rightarrow> bytes completion"
  provider_generateKey ::
    "algorithm \<Rightarrow> jsval \<Rightarrow> jsval \<Rightarrow> string list \<Rightarrow> generated completion"
  provider_importKey ::
    "algorithm \<Rightarrow> string \<Rightarrow> keydata \<Rightarrow> jsval \<Rightarrow> jsval \<Rightarrow> string list \<Rightarrow> CryptoKey completion"
  provider_exportKey :: "algorithm \<Rightarrow> string \<Rightarrow> CryptoKey \<Rightarrow> exported completion"
  provider_wrapKey :: "algorithm \<Rightarrow> jsval \<Rightarrow> CryptoKey \<Rightarrow> bytes \<Rightarrow> bytes completion"

subsection \<open>encrypt, decrypt, sign, verify\<close>

text \<open>\<open>key.usages.includes(u)\<close>; \<open>None\<close> when \<open>key.usages\<close> is undefined and the read throws.\<close>

definition usages_includes :: "CryptoKey \<Rightarrow> string \<Rightarrow> bool option" where
  "usages_includes key u = map_option (\<lambda>us. u \<in> set us) (usages key)"

text \<open>The two checks at the head of the four executors (lines 38-44 for encrypt).\<close>

definition check_key :: "algorithm \<Rightarrow> CryptoKey \<Rightarrow> string \<Rightarrow> error option" where
  "check_key normalizedAlgorithm key u =
     (if name normalizedAlgorithm \<noteq> name (algorithm key)
      then Some (InvalidAccessError ''Algorithm does not match key'')
      else case usages_includes key u of
             None \<Rightarrow> Some RuntimeTypeError
           | Some False \<Rightarrow>
               Some (InvalidAccessError (''Key usages must include \"'' @ u @ ''\"''))
           | Some True \<Rightarrow> None)"

text \<open>
  In the five methods below \<open>slice()\<close> is called in the body of the method, outside
  the executor of the promise: when it throws, the method throws. encrypt, sign and
  digest copy \<open>data\<close> before the normalization, decrypt after it; verify copies
  \<open>signature\<close> before and \<open>data\<close> after.
\<close>

definition encrypt ::
  "supportedAlgorithms \<Rightarrow> provider \<Rightarrow> jsval \<Rightarrow> CryptoKey \<Rightarrow> buffersource
     \<Rightarrow> bytes outcome \<times> call list" where
  "encrypt sa prov alg key data =
     (case slice data of
        Inl err \<Rightarrow> (Thrown err, [])
      | Inr data \<Rightarrow>
          (case normalize sa ''encrypt'' alg of
             Inl err \<Rightarrow> (Promise_reject err, [])
           | Inr normalizedAlgorithm \<Rightarrow>
               (case check_key normalizedAlgorithm key ''encrypt'' of
                  Some err \<Rightarrow> (new_Promise (Some (Throw err)), [])
                | None \<Rightarrow>
                    (let (ciphertext, log) =
                           invoke normalizedAlgorithm ''encrypt''
                             [AVal alg, AKey key, ABytes data]
                             (provider_encrypt prov normalizedAlgorithm alg key data)
                     in (new_Promise (Some (resolve_call ciphertext)), log)))))"

definition decrypt ::
  "supportedAlgorithms \<Rightarrow> provider \<Rightarrow> jsval \<Rightarrow> CryptoKey \<Rightarrow> buffersource
     \<Rightarrow> bytes outcome \<times> call list" where
  "decrypt sa prov alg key data =
     (case normalize sa ''decrypt'' alg of
        Inl err \<Rightarrow> (Promise_reject err, [])
      | Inr normalizedAlgorithm \<Rightarrow>
          (case slice data of
             Inl err \<Rightarrow> (Thrown err, [])
           | Inr data \<Rightarrow>
               (case check_key normalizedAlgorithm key ''decrypt'' of
                  Some err \<Rightarrow> (new_Promise (Some (Throw err)), [])
                | None \<Rightarrow>
                    (let (plaintext, log) =
                           invoke normalizedAlgorithm ''decrypt''
                             [AVal alg, AKey key, ABytes data]
                             (provider_decrypt prov normalizedAlgorithm alg key data)
                     in (new_Promise (Some (resolve_call plaintext)), log)))))"

definition sign ::
  "supportedAlgorithms \<Rightarrow> provider \<Rightarrow> jsval \<Rightarrow> CryptoKey \<Rightarrow> buffersource
     \<Rightarrow> bytes outcome \<times> call list" where
  "sign sa prov alg key data =
     (case slice data of
        Inl err \<Rightarrow> (Thrown err, [])
      | Inr data \<Rightarrow>
          (case normalize sa ''sign'' alg of
             Inl err \<Rightarrow> (Promise_reject err, [])
           | Inr normalizedAlgorithm \<Rightarrow>
               (case check_key normalizedAlgorithm key ''sign'' of
                  Some err \<Rightarrow> (new_Promise (Some (Throw err)), [])
                | None \<Rightarrow>
                    (let (result, log) =
                           invoke normalizedAlgorithm ''sign'' [AKey key, ABytes data]
                             (provider_sign prov normalizedAlgorithm key data)
                     in (new_Promise (Some (resolve_call result)), log)))))"

definition verify ::
  "supportedAlgorithms \<Rightarrow> provider \<Rightarrow> jsval \<Rightarrow> CryptoKey \<Rightarrow> buffersource \<Rightarrow> buffersource
     \<Rightarrow> bool outcome \<times> call list" where
  "verify sa prov alg key signature data =
     (case slice signature of
        Inl err \<Rightarrow> (Thrown err, [])
      | Inr signature \<Rightarrow>
          (case normalize sa ''verify'' alg of
             Inl err \<Rightarrow> (Promise_reject err, [])
           | Inr normalizedAlgorithm \<Rightarrow>
               (case slice data of
                  Inl err \<Rightarrow> (Thrown err, [])
                | Inr data \<Rightarrow>
                    (case check_key normalizedAlgorithm key ''verify'' of
                       Some err \<Rightarrow> (new_Promise (Some (Throw err)), [])
                     | None \<Rightarrow>
                         (let (result, log) =
                                invoke normalizedAlgorithm ''verify''
                                  [AKey key, ABytes signature, ABytes data]
                                  (provider_verify prov normalizedAlgorithm key signature data)
                          in (new_Promise (Some (resolve_call result)), log))))))"

subsection \<open>digest, generateKey\<close>

definition digest ::
  "supportedAlgorithms \<Rightarrow> provider \<Rightarrow> jsval \<Rightarrow> buffersource
     \<Rightarrow> bytes outcome \<times> call list" where
  "digest sa prov alg data =
     (case slice data of
        Inl err \<Rightarrow> (Thrown err, [])
      | Inr data \<Rightarrow>
          (case normalize sa ''digest'' alg of
             Inl err \<Rightarrow> (Promise_reject err, [])
           | Inr normalizedAlgorithm \<Rightarrow>
               (let (result, log) =
                      invoke normalizedAlgorithm ''digest'' [AVal alg, ABytes data]
                        (provider_digest prov normalizedAlgorithm alg data)
                in (new_Promise (Some (try_resolve_call result)), log))))"

text \<open>\<open>!usages || usages.length === 0\<close>\<close>

definition emptyUsages :: "CryptoKey \<Rightarrow> bool" where
  "emptyUsages k = (case usages k of None \<Rightarrow> True | Some us \<Rightarrow> length us = 0)"

text \<open>\<open>type === 'secret' || type === 'private'\<close>\<close>

definition restricted :: "CryptoKey \<Rightarrow> bool" where
  "restricted k = (type k = ''secret'' \<or> type k = ''private'')"

text \<open>
  Lines 209-227 of generateKey, on the value the provider returned: the two
  \<open>instanceof\<close> blocks, then \<open>resolve(result)\<close>.
\<close>

fun generateKey_result :: "generated \<Rightarrow> generated executor" where
  "generateKey_result (GKey k) =
     (if restricted k \<and> emptyUsages k then Reject SyntaxError else Resolve (GKey k))"
| "generateKey_result (GPair p) =
     (if emptyUsages (privateKey p) then Reject SyntaxError else Resolve (GPair p))"
| "generateKey_result (GOther v) = Resolve (GOther v)"

text \<open>
  A promise returned by the provider is an instance of neither class, so it goes to
  \<open>resolve\<close> unchecked.
\<close>

fun generateKey_executor :: "generated completion \<Rightarrow> generated executor" where
  "generateKey_executor (Returns result) = generateKey_result result"
| "generateKey_executor (ReturnsPromise p) = ResolvePromise p"
| "generateKey_executor (Throws e) = Reject e"

definition generateKey ::
  "supportedAlgorithms \<Rightarrow> provider \<Rightarrow> jsval \<Rightarrow> jsval \<Rightarrow> string list
     \<Rightarrow> generated outcome \<times> call list" where
  "generateKey sa prov alg extractable' keyUsages =
     (case normalize sa ''generateKey'' alg of
        Inl err \<Rightarrow> (Promise_reject err, [])
      | Inr normalizedAlgorithm \<Rightarrow>
          (let (result, log) =
                 invoke normalizedAlgorithm ''generateKey''
                   [AVal alg, AVal extractable', AUsages keyUsages]
                   (provider_generateKey prov normalizedAlgorithm alg extractable' keyUsages)
           in (new_Promise (Some (generateKey_executor result)), log)))"

subsection \<open>deriveKey, deriveBits, unwrapKey\<close>

text \<open>Each body is \<open>return new Promise()\<close>: the constructor gets no executor.\<close>

definition deriveKey ::
  "jsval \<Rightarrow> CryptoKey \<Rightarrow> jsval \<Rightarrow> jsval \<Rightarrow> string list \<Rightarrow> CryptoKey outcome" where
  "deriveKey alg baseKey derivedKeyType extractable' keyUsages = new_Promise None"

definition deriveBits :: "jsval \<Rightarrow> CryptoKey \<Rightarrow> int \<Rightarrow> bytes outcome" where
  "deriveBits alg baseKey len = new_Promise None"

definition unwrapKey ::
  "string \<Rightarrow> bytes \<Rightarrow> CryptoKey \<Rightarrow> jsval \<Rightarrow> jsval \<Rightarrow> jsval \<Rightarrow> string list
     \<Rightarrow> CryptoKey outcome" where
  "unwrapKey format wrappedKey unwrappingKey unwrapAlgorithm unwrappedKeyAlgorithm
     exractable keyUsages = new_Promise None"

subsection \<open>importKey\<close>

text \<open>
  What importKey and wrapKey take from outside the file besides the algorithms: the
  constructor of the class ./keys/JsonWebKey (\<open>new JsonWebKey(keyData)\<close> returns
  the new instance or throws), the table of ./keys/recognizedKeyUsages,
  \<open>JSON.stringify\<close> (it may throw), \<open>TextEncoder.encode\<close>, and the conversion
  \<open>new Uint8Array(object)\<close> of an object that is no buffer, which reads the
  \<open>length\<close> and the indexed members of the object (it may throw a RangeError).
\<close>

record host =
  JsonWebKey_new :: "keydata \<Rightarrow> error + jwk"
  recognizedKeyUsages :: "string list"
  JSON_stringify :: "exported \<Rightarrow> error + string"
  TextEncoder_encode :: "string \<Rightarrow> bytes"
  Uint8Array_from :: "jwk \<Rightarrow> error + bytes"

text \<open>
  Modelled from the spec: \<open>recognizedKeyUsages.normalize\<close> of
  ./keys/recognizedKeyUsages is missing from src/. The spec: the caller-supplied usage
  set is "deduplicated/normalized against the recognized operation-name set"; for
  example \<open>["encrypt","encrypt"]\<close> gives \<open>{"encrypt"}\<close>. The recognized names that
  occur among the given usages are kept, each once.
\<close>

definition recognizedKeyUsages_normalize :: "host \<Rightarrow> string list \<Rightarrow> string list" where
  "recognizedKeyUsages_normalize h keyUsages =
     filter (\<lambda>u. u \<in> set keyUsages) (remdups (recognizedKeyUsages h))"

definition instanceof_JsonWebKey :: "keydata \<Rightarrow> bool" where
  "instanceof_JsonWebKey keyData = (case keyData of KJwk j \<Rightarrow> True | _ \<Rightarrow> False)"

text \<open>
  \<open>keyData.slice()\<close>: a copy of an ArrayBuffer, of a typed array or of a string; any
  other value (a DataView too) has no such function and the call throws.
\<close>

fun keyData_slice :: "keydata \<Rightarrow> error + keydata" where
  "keyData_slice (KBytes b) = Inr (KBytes b)"
| "keyData_slice (KOther (JString s)) = Inr (KOther (JString s))"
| "keyData_slice _ = Inl RuntimeTypeError"

text \<open>
  Lines 286-300: the two format blocks at the head of the executor, outside its
  try/catch. \<open>Inl\<close> is the exception that leaves the executor, \<open>Inr\<close> the
  \<open>keyData\<close> passed on.
\<close>

definition importKey_keyData :: "host \<Rightarrow> string \<Rightarrow> keydata \<Rightarrow> error + keydata" where
  "importKey_keyData h format keyData =
     (case (if format = ''raw'' \<or> format = ''pkcs8'' \<or> format = ''spki''
            then (if instanceof_JsonWebKey keyData then Inl (TypeError '''')
                  else keyData_slice keyData)
            else Inr keyData) of
        Inl err \<Rightarrow> Inl err
      | Inr keyData \<Rightarrow>
          (if format = ''jwk''
           then (case JsonWebKey_new h keyData of
                   Inl err \<Rightarrow> Inl err
                 | Inr j \<Rightarrow>
                     (let keyData = KJwk j in
                      if \<not> instanceof_JsonWebKey keyData
                      then Inl (TypeError ''key is not a JSON Web Key'')
                      else Inr keyData))
           else Inr keyData))"

text \<open>
  Lines 306-315, on the key the provider returned: the usages check, the two
  assignments, \<open>resolve(result)\<close>.
\<close>

definition importKey_result ::
  "host \<Rightarrow> jsval \<Rightarrow> string list \<Rightarrow> CryptoKey \<Rightarrow> CryptoKey executor" where
  "importKey_result h extractable' keyUsages result =
     (if (type result = ''secret'' \<or> type result = ''private'') \<and> emptyUsages result
      then Reject SyntaxError
      else Resolve (result\<lparr>extractable := extractable',
                           usages := Some (recognizedKeyUsages_normalize h keyUsages)\<rparr>))"

text \<open>
  A promise returned by the provider has no \<open>type\<close>; the two assignments write to the
  promise object, and \<open>resolve\<close> follows it.
\<close>

fun importKey_executor ::
  "host \<Rightarrow> jsval \<Rightarrow> string list \<Rightarrow> CryptoKey completion \<Rightarrow> CryptoKey executor" where
  "importKey_executor h extractable' keyUsages (Returns result) =
     importKey_result h extractable' keyUsages result"
| "importKey_executor h extractable' keyUsages (ReturnsPromise p) = ResolvePromise p"
| "importKey_executor h extractable' keyUsages (Throws e) = Reject e"

definition importKey ::
  "supportedAlgorithms \<Rightarrow> provider \<Rightarrow> host \<Rightarrow> string \<Rightarrow> keydata \<Rightarrow> jsval \<Rightarrow> jsval
     \<Rightarrow> string list \<Rightarrow> CryptoKey outcome \<times> call list" where
  "importKey sa prov h format keyData alg extractable' keyUsages =
     (case normalize sa ''importKey'' alg of
        Inl err \<Rightarrow> (Promise_reject err, [])
      | Inr normalizedAlgorithm \<Rightarrow>
          (case importKey_keyData h format keyData of
             Inl err \<Rightarrow> (new_Promise (Some (Throw err)), [])
           | Inr keyData \<Rightarrow>
               (let (result, log) =
                      invoke normalizedAlgorithm ''importKey''
                        [AFormat format, AKeyData keyData, AVal alg, AVal extractable',
                         AUsages keyUsages]
                        (provider_importKey prov normalizedAlgorithm format keyData alg
                           extractable' keyUsages)
                in (new_Promise (Some (importKey_executor h extractable' keyUsages result)),
                    log))))"

subsection \<open>exportKey\<close>

definition exportKey ::
  "supportedAlgorithms \<Rightarrow> provider \<Rightarrow> string \<Rightarrow> CryptoKey \<Rightarrow> exported outcome \<times> call list" where
  "exportKey sa prov format key =
     (let (ex, log) =
        (if \<not> registered sa ''exportKey'' (name (algorithm key))
         then (Reject (NotSupportedError (name (algorithm key))), [])
         else if extractable key = JBoolean False
         then (Reject (InvalidAccessError ''Key is not extractable''), [])
         else (let (result, log) =
                     invoke (algorithm key) ''exportKey'' [AFormat format, AKey key]
                       (provider_exportKey prov (algorithm key) format key)
               in (try_resolve_call result, log)))
      in (new_Promise (Some ex), log))"

subsection \<open>wrapKey\<close>

text \<open>Lines 369-373: the normalization, with its second attempt.\<close>

definition wrapKey_normalize :: "supportedAlgorithms \<Rightarrow> jsval \<Rightarrow> error + algorithm" where
  "wrapKey_normalize sa wrapAlgorithm =
     (case normalize sa ''wrapKey'' wrapAlgorithm of
        Inl err \<Rightarrow> normalize sa ''encrypt'' wrapAlgorithm
      | Inr normalizedAlgorithm \<Rightarrow> Inr normalizedAlgorithm)"

text \<open>
  Lines 407-416: the variable \<open>bytes\<close> after the two format branches; \<open>None\<close> when it
  is still undefined. \<open>Inl\<close> is an exception of \<open>JSON.stringify\<close>.
\<close>

definition wrapKey_serialize :: "host \<Rightarrow> string \<Rightarrow> exported \<Rightarrow> error + exported option" where
  "wrapKey_serialize h format exportedKey =
     (if format \<in> set [''raw'', ''pkcs8'', ''spki'']
      then Inr (Some exportedKey)
      else if format = ''jwk''
      then (case JSON_stringify h exportedKey of
              Inl err \<Rightarrow> Inl err
            | Inr json \<Rightarrow> Inr (Some (EBytes (TextEncoder_encode h json))))
      else Inr None)"

text \<open>
  \<open>new Uint8Array(bytes)\<close>: of \<open>undefined\<close> the empty array, of a buffer its bytes, of
  any other object (a JsonWebKey) what the conversion of the language makes of its
  \<open>length\<close> and its indexed members.
\<close>

fun new_Uint8Array :: "host \<Rightarrow> exported option \<Rightarrow> error + bytes" where
  "new_Uint8Array h None = Inr []"
| "new_Uint8Array h (Some (EBytes b)) = Inr b"
| "new_Uint8Array h (Some (EJwk j)) = Uint8Array_from h j"

text \<open>
  Whether a value is truthy, and whether \<open>object[p]\<close> is: a property that is a
  function is; one of the other properties is when its value is.
\<close>

fun truthy :: "jsval \<Rightarrow> bool" where
  "truthy JUndefined = False"
| "truthy JNull = False"
| "truthy (JBoolean b) = b"
| "truthy (JNumber n) = (n \<noteq> 0)"
| "truthy (JString s) = (s \<noteq> [])"
| "truthy (JObject members) = True"

definition property_truthy :: "algorithm \<Rightarrow> string \<Rightarrow> bool" where
  "property_truthy a p =
     (if p \<in> set (methods a) then True
      else case params a of
             JObject members \<Rightarrow>
               (case map_of members p of Some v \<Rightarrow> truthy v | None \<Rightarrow> False)
           | _ \<Rightarrow> False)"

text \<open>
  \<open>.then(resolve)\<close> on the promise of the callback: \<open>resolve\<close> runs when the callback
  returned a value or a promise that fulfils, and never otherwise; nothing in the chain
  calls \<open>reject\<close>.
\<close>

fun then_resolve :: "'a completion \<Rightarrow> 'a executor" where
  "then_resolve (Returns v) = Resolve v"
| "then_resolve (ReturnsPromise (Fulfilled v)) = Resolve v"
| "then_resolve (ReturnsPromise (Rejected e)) = Return"
| "then_resolve (ReturnsPromise Pending) = Return"
| "then_resolve (Throws e) = Return"

text \<open>
  Lines 406-431: the callback on the exported key, followed by \<open>.then(resolve)\<close>. The
  result is what happens to the promise of wrapKey, and the provider calls made. The
  two tests at lines 418 and 422 are tests of truthiness; the call that follows throws
  when the property is no function, as it does when one of its arguments cannot be
  evaluated, and an exception of the callback leaves the promise of wrapKey as it is.
\<close>

definition wrapKey_then ::
  "provider \<Rightarrow> host \<Rightarrow> string \<Rightarrow> algorithm \<Rightarrow> CryptoKey \<Rightarrow> jsval \<Rightarrow> exported
     \<Rightarrow> bytes executor \<times> call list" where
  "wrapKey_then prov h format normalizedAlgorithm wrappingKey wrapAlgorithm exportedKey =
     (case wrapKey_serialize h format exportedKey of
        Inl err \<Rightarrow> (Return, [])
      | Inr bytes \<Rightarrow>
          (if property_truthy normalizedAlgorithm ''wrapKey''
           then (case new_Uint8Array h bytes of
                   Inl err \<Rightarrow> (Return, [])
                 | Inr array \<Rightarrow>
                     (let (result, log) =
                            invoke normalizedAlgorithm ''wrapKey''
                              [AVal wrapAlgorithm, AKey wrappingKey, ABytes array]
                              (provider_wrapKey prov normalizedAlgorithm wrapAlgorithm
                                 wrappingKey array)
                      in (then_resolve result, log)))
           else if property_truthy normalizedAlgorithm ''encrypt''
           then (case new_Uint8Array h bytes of
                   Inl err \<Rightarrow> (Return, [])
                 | Inr array \<Rightarrow>
                     (let (result, log) =
                            invoke normalizedAlgorithm ''encrypt''
                              [AVal wrapAlgorithm, AKey wrappingKey, ABytes array]
                              (provider_encrypt prov normalizedAlgorithm wrapAlgorithm
                                 wrappingKey array)
                      in (then_resolve result, log)))
           else (Reject (NotSupportedError (name normalizedAlgorithm)), [])))"

text \<open>
  Line 405 onwards: \<open>this.exportKey(format,key).then(...).then(resolve)\<close>. When the
  promise of exportKey rejects or stays pending, the callback does not run and neither
  \<open>resolve\<close> nor \<open>reject\<close> is called.
\<close>

definition wrapKey_export ::
  "supportedAlgorithms \<Rightarrow> provider \<Rightarrow> host \<Rightarrow> string \<Rightarrow> CryptoKey \<Rightarrow> algorithm \<Rightarrow> CryptoKey
     \<Rightarrow> jsval \<Rightarrow> bytes executor \<times> call list" where
  "wrapKey_export sa prov h format key normalizedAlgorithm wrappingKey wrapAlgorithm =
     (case exportKey sa prov format key of
        (Thrown err, log) \<Rightarrow> (Reject err, log)
      | (Promise Pending, log) \<Rightarrow> (Return, log)
      | (Promise (Rejected err), log) \<Rightarrow> (Return, log)
      | (Promise (Fulfilled exportedKey), log) \<Rightarrow>
          (let (ex, log') =
                 wrapKey_then prov h format normalizedAlgorithm wrappingKey wrapAlgorithm
                   exportedKey
           in (ex, log @ log')))"

text \<open>Lines 382-434: the body of the executor, for the normalized algorithm found.\<close>

definition wrapKey_executor ::
  "supportedAlgorithms \<Rightarrow> provider \<Rightarrow> host \<Rightarrow> string \<Rightarrow> CryptoKey \<Rightarrow> CryptoKey \<Rightarrow> jsval
     \<Rightarrow> algorithm \<Rightarrow> bytes executor \<times> call list" where
  "wrapKey_executor sa prov h format key wrappingKey wrapAlgorithm normalizedAlgorithm =
     (if name normalizedAlgorithm \<noteq> name (algorithm wrappingKey)
      then (Reject (InvalidAccessError
              ''NormalizedAlgorthm name must be same as wrappingKey algorithm name''), [])
      else case usages_includes wrappingKey ''wrapKey'' of
             None \<Rightarrow> (Reject RuntimeTypeError, [])
           | Some False \<Rightarrow>
               (Reject (InvalidAccessError
                  ''Wrapping key usages must include \"wrapKey\"''), [])
           | Some True \<Rightarrow>
               (if \<not> registered sa ''exportKey'' (name (algorithm key))
                then (Reject (NotSupportedError (name (algorithm key))), [])
                else if extractable key = JBoolean False
                then (Reject (InvalidAccessError ''Key is not extractable''), [])
                else wrapKey_export sa prov h format key normalizedAlgorithm
                       wrappingKey wrapAlgorithm))"

definition wrapKey ::
  "supportedAlgorithms \<Rightarrow> provider \<Rightarrow> host \<Rightarrow> string \<Rightarrow> CryptoKey \<Rightarrow> CryptoKey \<Rightarrow> jsval
     \<Rightarrow> bytes outcome \<times> call list" where
  "wrapKey sa prov h format key wrappingKey wrapAlgorithm =
     (case wrapKey_normalize sa wrapAlgorithm of
        Inl err \<Rightarrow> (Promise_reject err, [])
      | Inr normalizedAlgorithm \<Rightarrow>
          (let (ex, log) =
                 wrapKey_executor sa prov h format key wrappingKey wrapAlgorithm
                   normalizedAlgorithm
           in (new_Promise (Some ex), log)))"

subsection \<open>An example registry, provider and keys\<close>

text \<open>
  A small world to run the dispatcher in: three algorithms, a registry that normalizes
  a descriptor by its name when the pair of operation and name is registered (as the
  spec describes ./algorithms), and a provider.
\<close>

definition AES_GCM :: algorithm where
  "AES_GCM = \<lparr>name = ''AES-GCM'',
     methods = [''encrypt'', ''decrypt'', ''generateKey'', ''importKey'', ''exportKey''],
     params = JObject [(''length'', JNumber 256)]\<rparr>"

definition HMAC :: algorithm where
  "HMAC = \<lparr>name = ''HMAC'',
     methods = [''sign'', ''verify'', ''generateKey'', ''importKey'', ''exportKey''],
     params = JObject [(''hash'', JString ''SHA-256'')]\<rparr>"

definition AES_KW :: algorithm where
  "AES_KW = \<lparr>name = ''AES-KW'',
     methods = [''wrapKey'', ''unwrapKey'', ''generateKey'', ''importKey'', ''exportKey''],
     params = JObject [(''length'', JNumber 256)]\<rparr>"

definition example_table :: "algorithm list" where
  "example_table = [AES_GCM, HMAC, AES_KW]"

fun descriptor_name :: "jsval \<Rightarrow> string" where
  "descriptor_name (JString s) = s"
| "descriptor_name (JObject members) =
     (case map_of members ''name'' of Some (JString s) \<Rightarrow> s | _ \<Rightarrow> [])"
| "descriptor_name _ = []"

definition example_registered :: "string \<Rightarrow> string \<Rightarrow> bool" where
  "example_registered op n = (find (\<lambda>a. name a = n \<and> op \<in> set (methods a)) example_table \<noteq> None)"

definition example_normalize :: "string \<Rightarrow> jsval \<Rightarrow> error + algorithm" where
  "example_normalize op d =
     (case find (\<lambda>a. name a = descriptor_name d \<and> op \<in> set (methods a)) example_table of
        None \<Rightarrow> Inl (NotSupportedError (descriptor_name d))
      | Some a \<Rightarrow> Inr a)"

definition example_algorithms :: supportedAlgorithms where
  "example_algorithms = \<lparr>normalize = example_normalize, registered = example_registered\<rparr>"

text \<open>
  The example provider: it exports the handle of a key in the formats \<open>raw\<close> and \<open>jwk\<close>
  and throws for any other format; it imports bytes or a JsonWebKey as a secret key
  with the usages it is given.
\<close>

definition example_exportKey :: "algorithm \<Rightarrow> string \<Rightarrow> CryptoKey \<Rightarrow> exported completion" where
  "example_exportKey a format key =
     (if format = ''raw'' then Returns (EBytes (handle key))
      else if format = ''jwk'' then Returns (EJwk [(''kty'', JString ''oct'')])
      else Throws (ProviderError ''unsupported key format''))"

definition example_importKey ::
  "algorithm \<Rightarrow> string \<Rightarrow> keydata \<Rightarrow> jsval \<Rightarrow> jsval \<Rightarrow> string list \<Rightarrow> CryptoKey completion" where
  "example_importKey a format keyData alg extractable' keyUsages =
     (case keyData of
        KBytes b \<Rightarrow>
          Returns \<lparr>type = ''secret'', extractable = extractable', algorithm = a,
                   usages = Some keyUsages, handle = b\<rparr>
      | KDataView b \<Rightarrow>
          Returns \<lparr>type = ''secret'', extractable = extractable', algorithm = a,
                   usages = Some keyUsages, handle = b\<rparr>
      | KJwk j \<Rightarrow>
          Returns \<lparr>type = ''secret'', extractable = extractable', algorithm = a,
                   usages = Some keyUsages, handle = []\<rparr>
      | KOther v \<Rightarrow> Throws (ProviderError ''unsupported key data''))"

definition example_provider :: provider where
  "example_provider =
     \<lparr>provider_encrypt = (\<lambda>a alg key data. Returns (rev data)),
      provider_decrypt = (\<lambda>a alg key data. Returns (rev data)),
      provider_sign = (\<lambda>a key data. Returns (take 1 data)),
      provider_verify = (\<lambda>a key signature data. Returns (signature = take 1 data)),
      provider_digest = (\<lambda>a alg data. Returns (take 1 data)),
      provider_generateKey = (\<lambda>a alg extractable' keyUsages.
         Returns (GKey \<lparr>type = ''secret'', extractable = extractable', algorithm = a,
                         usages = Some keyUsages, handle = [1, 2, 3, 4]\<rparr>)),
      provider_importKey = example_importKey,
      provider_exportKey = example_exportKey,
      provider_wrapKey = (\<lambda>a alg key data. Returns (rev data))\<rparr>"

text \<open>
  A provider that gives a key imported without usages the usages of its algorithm.
\<close>

definition defaulting_importKey ::
  "algorithm \<Rightarrow> string \<Rightarrow> keydata \<Rightarrow> jsval \<Rightarrow> jsval \<Rightarrow> string list \<Rightarrow> CryptoKey completion" where
  "defaulting_importKey a format keyData alg extractable' keyUsages =
     example_importKey a format keyData alg extractable'
       (if keyUsages = [] then [''encrypt'', ''decrypt''] else keyUsages)"

definition defaulting_provider :: provider where
  "defaulting_provider = example_provider\<lparr>provider_importKey := defaulting_importKey\<rparr>"


definition example_host :: host where
  "example_host =
     \<lparr>JsonWebKey_new = (\<lambda>keyData. case keyData of
          KJwk j \<Rightarrow> Inr j
        | KOther (JObject members) \<Rightarrow> Inr members
        | _ \<Rightarrow> Inl (ProviderError ''invalid JWK'')),
      recognizedKeyUsages = [''encrypt'', ''decrypt'', ''sign'', ''verify'', ''deriveKey'',
        ''deriveBits'', ''wrapKey'', ''unwrapKey''],
      JSON_stringify = (\<lambda>exportedKey. Inr ''{}''),
      TextEncoder_encode = map (\<lambda>c. of_nat (of_char c)),
      Uint8Array_from = (\<lambda>j. Inr [])\<rparr>"

definition aes_gcm_params :: jsval where
  "aes_gcm_params = JObject [(''name'', JString ''AES-GCM''), (''iv'', JString ''000000000000'')]"

definition hmac_params :: jsval where
  "hmac_params = JObject [(''name'', JString ''HMAC'')]"

definition aes_kw_params :: jsval where
  "aes_kw_params = JString ''AES-KW''"

definition aes_key :: CryptoKey where
  "aes_key = \<lparr>type = ''secret'', extractable = JBoolean True, algorithm = AES_GCM,
     usages = Some [''encrypt'', ''decrypt'', ''wrapKey''], handle = [1, 2, 3, 4]\<rparr>"

definition hmac_key :: CryptoKey where
  "hmac_key = \<lparr>type = ''secret'', extractable = JBoolean False, algorithm = HMAC,
     usages = Some [''sign'', ''verify''], handle = [5, 6, 7, 8]\<rparr>"

definition kw_key :: CryptoKey where
  "kw_key = \<lparr>type = ''secret'', extractable = JUndefined, algorithm = AES_KW,
     usages = Some [''wrapKey'', ''unwrapKey''], handle = [9, 9, 9, 9]\<rparr>"

text \<open>A key of an algorithm the registry does not know.\<close>

definition foreign_key :: CryptoKey where
  "foreign_key = \<lparr>type = ''secret'', extractable = JBoolean False,
     algorithm = \<lparr>name = ''ChaCha20'', methods = [''exportKey''], params = JNull\<rparr>,
     usages = Some [''encrypt''], handle = [7, 7]\<rparr>"
subsection \<open>The reading of "invoked with the normalized parameters"\<close>

text \<open>
  The spec's sentence on the four key operations, as a predicate on the log: a provider
  call was made, the normalized record reaches every call (as its receiver or as an
  argument) and the caller's descriptor is not among the arguments.
\<close>

definition invoked_with_normalized :: "jsval \<Rightarrow> algorithm \<Rightarrow> call list \<Rightarrow> bool" where
  "invoked_with_normalized alg n log =
     (log \<noteq> [] \<and>
      list_all (\<lambda>c. (receiver c = n \<or> AAlg n \<in> set (args c)) \<and> AVal alg \<notin> set (args c)) log)"

text \<open>A provider whose wrapKey returns a promise that rejects.\<close>

definition rejecting_provider :: provider where
  "rejecting_provider =
     example_provider\<lparr>provider_wrapKey :=
       (\<lambda>a alg key data. ReturnsPromise (Rejected (ProviderError ''wrap failed'')))\<rparr>"

section \<open>Properties\<close>

subsection \<open>The example world evaluated\<close>

lemma example_algorithm_fields:
  "name AES_GCM = ''AES-GCM''" "name AES_KW = ''AES-KW''" "name HMAC = ''HMAC''"
  "methods AES_GCM = [''encrypt'', ''decrypt'', ''generateKey'', ''importKey'', ''exportKey'']"
  "methods HMAC = [''sign'', ''verify'', ''generateKey'', ''importKey'', ''exportKey'']"
  "methods AES_KW = [''wrapKey'', ''unwrapKey'', ''generateKey'', ''importKey'', ''exportKey'']"
  by (simp_all add: AES_GCM_def AES_KW_def HMAC_def)

lemma example_property_truthy:
  "property_truthy AES_KW ''wrapKey''" "\<not> property_truthy AES_GCM ''wrapKey''"
  "property_truthy AES_GCM ''encrypt''"
  by (simp_all add: property_truthy_def AES_GCM_def AES_KW_def)

lemma example_key_fields:
  "algorithm aes_key = AES_GCM" "algorithm kw_key = AES_KW" "algorithm hmac_key = HMAC"
  "extractable aes_key = JBoolean True" "extractable hmac_key = JBoolean False"
  "extractable kw_key = JUndefined"
  "handle aes_key = [1, 2, 3, 4]" "handle kw_key = [9, 9, 9, 9]"
  "usages aes_key = Some [''encrypt'', ''decrypt'', ''wrapKey'']"
  "usages hmac_key = Some [''sign'', ''verify'']"
  "usages kw_key = Some [''wrapKey'', ''unwrapKey'']"
  by (simp_all add: aes_key_def kw_key_def hmac_key_def)

lemma example_normalize_values:
  "normalize example_algorithms ''encrypt'' aes_gcm_params = Inr AES_GCM"
  "normalize example_algorithms ''decrypt'' aes_gcm_params = Inr AES_GCM"
  "normalize example_algorithms ''importKey'' aes_gcm_params = Inr AES_GCM"
  "normalize example_algorithms ''sign'' hmac_params = Inr HMAC"
  "normalize example_algorithms ''verify'' hmac_params = Inr HMAC"
  "normalize example_algorithms ''wrapKey'' aes_kw_params = Inr AES_KW"
  "normalize example_algorithms ''wrapKey'' aes_gcm_params = Inl (NotSupportedError ''AES-GCM'')"
  "normalize example_algorithms ''wrapKey'' hmac_params = Inl (NotSupportedError ''HMAC'')"
  "normalize example_algorithms ''encrypt'' hmac_params = Inl (NotSupportedError ''HMAC'')"
  by (simp_all add: example_algorithms_def example_normalize_def example_table_def
      AES_GCM_def HMAC_def AES_KW_def aes_gcm_params_def hmac_params_def aes_kw_params_def)

lemma example_registered_values:
  "registered example_algorithms ''exportKey'' ''AES-GCM''"
  "registered example_algorithms ''exportKey'' ''HMAC''"
  "registered example_algorithms ''exportKey'' ''AES-KW''"
  "\<not> registered example_algorithms ''exportKey'' ''ChaCha20''"
  by (simp_all add: example_algorithms_def example_registered_def example_table_def
      AES_GCM_def HMAC_def AES_KW_def)

lemma example_key_checks:
  "check_key AES_GCM aes_key ''encrypt'' = None"
  "check_key AES_GCM aes_key ''decrypt'' = None"
  "check_key HMAC hmac_key ''sign'' = None"
  "check_key HMAC hmac_key ''verify'' = None"
  by (simp_all add: check_key_def usages_includes_def example_key_fields)

lemma example_provider_fields:
  "provider_encrypt example_provider a alg key data = Returns (rev data)"
  "provider_wrapKey example_provider a alg key data = Returns (rev data)"
  "provider_exportKey example_provider = example_exportKey"
  "provider_importKey example_provider = example_importKey"
  by (simp_all add: example_provider_def)


lemma example_exportKey_raw:
  "exportKey example_algorithms example_provider ''raw'' aes_key =
     (Promise (Fulfilled (EBytes [1, 2, 3, 4])),
      [\<lparr>receiver = AES_GCM, method_name = ''exportKey'', args = [AFormat ''raw'', AKey aes_key]\<rparr>])"
  by (simp add: exportKey_def invoke_def example_key_fields example_algorithm_fields
      example_registered_values example_provider_fields example_exportKey_def)

lemma wrapKey_executor_aes_kw_raw:
  "wrapKey_executor example_algorithms example_provider example_host ''raw'' aes_key kw_key
     aes_kw_params AES_KW =
   (Resolve [4, 3, 2, 1],
    [\<lparr>receiver = AES_GCM, method_name = ''exportKey'', args = [AFormat ''raw'', AKey aes_key]\<rparr>,
     \<lparr>receiver = AES_KW, method_name = ''wrapKey'',
       args = [AVal aes_kw_params, AKey kw_key, ABytes [1, 2, 3, 4]]\<rparr>])"
  by (simp add: wrapKey_executor_def wrapKey_export_def wrapKey_then_def wrapKey_serialize_def
      usages_includes_def invoke_def example_exportKey_raw example_key_fields
      example_algorithm_fields example_registered_values example_provider_fields
      example_property_truthy)

lemma wrapKey_executor_aes_gcm_raw:
  "wrapKey_executor example_algorithms example_provider example_host ''raw'' aes_key aes_key
     aes_gcm_params AES_GCM =
   (Resolve [4, 3, 2, 1],
    [\<lparr>receiver = AES_GCM, method_name = ''exportKey'', args = [AFormat ''raw'', AKey aes_key]\<rparr>,
     \<lparr>receiver = AES_GCM, method_name = ''encrypt'',
       args = [AVal aes_gcm_params, AKey aes_key, ABytes [1, 2, 3, 4]]\<rparr>])"
  by (simp add: wrapKey_executor_def wrapKey_export_def wrapKey_then_def wrapKey_serialize_def
      usages_includes_def invoke_def example_exportKey_raw example_key_fields
      example_algorithm_fields example_registered_values example_provider_fields
      example_property_truthy)

lemma rejecting_provider_fields:
  "provider_wrapKey rejecting_provider a alg key data =
     ReturnsPromise (Rejected (ProviderError ''wrap failed''))"
  "provider_exportKey rejecting_provider = example_exportKey"
  by (simp_all add: rejecting_provider_def example_provider_def)

lemma defaulting_provider_fields:
  "provider_importKey defaulting_provider = defaulting_importKey"
  by (simp add: defaulting_provider_def)

subsection \<open>What the provider is called with\<close>

text \<open>
  C1, as the spec states it, fails: a call of encrypt that passes normalization and
  validation hands the provider the caller's own descriptor as first argument.
\<close>

theorem encrypt_passes_descriptor_counterexample:
  "normalize example_algorithms ''encrypt'' aes_gcm_params = Inr AES_GCM
   \<and> check_key AES_GCM aes_key ''encrypt'' = None
   \<and> snd (encrypt example_algorithms example_provider aes_gcm_params aes_key
          (Buffer [1, 2, 3])) =
        [\<lparr>receiver = AES_GCM, method_name = ''encrypt'',
          args = [AVal aes_gcm_params, AKey aes_key, ABytes [1, 2, 3]]\<rparr>]
   \<and> \<not> invoked_with_normalized aes_gcm_params AES_GCM
         (snd (encrypt example_algorithms example_provider aes_gcm_params aes_key
            (Buffer [1, 2, 3])))"
proof -
  have m: "''encrypt'' \<in> set (methods AES_GCM)"
    by (simp add: AES_GCM_def)
  have l: "snd (encrypt example_algorithms example_provider aes_gcm_params aes_key
          (Buffer [1, 2, 3])) =
        [\<lparr>receiver = AES_GCM, method_name = ''encrypt'',
          args = [AVal aes_gcm_params, AKey aes_key, ABytes [1, 2, 3]]\<rparr>]"
    by (simp add: encrypt_def example_normalize_values example_key_checks invoke_def m)
  show ?thesis
    by (simp add: l example_normalize_values example_key_checks invoked_with_normalized_def)
qed

text \<open>
  C1, amended. For every call to encrypt, decrypt, sign or verify that passes
  normalization and validation (the copies of its buffers are made, the names match,
  the usage is there), and whose normalized algorithm has the method, exactly one
  provider call is made and its receiver is the normalized algorithm record.
  encrypt and decrypt pass the caller's original descriptor as first argument, then the
  key and the copy of the data; sign and verify pass no algorithm argument: the key
  (and the copy of the signature) and the copy of the data.
\<close>

theorem provider_call_arguments:
  "(normalize sa ''encrypt'' alg = Inr n \<longrightarrow> slice data = Inr b \<longrightarrow>
      name n = name (algorithm key) \<longrightarrow>
      usages key = Some us \<longrightarrow> ''encrypt'' \<in> set us \<longrightarrow> ''encrypt'' \<in> set (methods n) \<longrightarrow>
      snd (encrypt sa prov alg key data) =
        [\<lparr>receiver = n, method_name = ''encrypt'', args = [AVal alg, AKey key, ABytes b]\<rparr>])
   \<and> (normalize sa ''decrypt'' alg = Inr n \<longrightarrow> slice data = Inr b \<longrightarrow>
      name n = name (algorithm key) \<longrightarrow>
      usages key = Some us \<longrightarrow> ''decrypt'' \<in> set us \<longrightarrow> ''decrypt'' \<in> set (methods n) \<longrightarrow>
      snd (decrypt sa prov alg key data) =
        [\<lparr>receiver = n, method_name = ''decrypt'', args = [AVal alg, AKey key, ABytes b]\<rparr>])
   \<and> (normalize sa ''sign'' alg' = Inr n' \<longrightarrow> slice data = Inr b \<longrightarrow>
      name n' = name (algorithm key') \<longrightarrow>
      usages key' = Some us' \<longrightarrow> ''sign'' \<in> set us' \<longrightarrow> ''sign'' \<in> set (methods n') \<longrightarrow>
      snd (sign sa prov alg' key' data) =
        [\<lparr>receiver = n', method_name = ''sign'', args = [AKey key', ABytes b]\<rparr>])
   \<and> (normalize sa ''verify'' alg' = Inr n' \<longrightarrow> slice signature = Inr s \<longrightarrow>
      slice data = Inr b \<longrightarrow> name n' = name (algorithm key') \<longrightarrow>
      usages key' = Some us' \<longrightarrow> ''verify'' \<in> set us' \<longrightarrow> ''verify'' \<in> set (methods n') \<longrightarrow>
      snd (verify sa prov alg' key' signature data) =
        [\<lparr>receiver = n', method_name = ''verify'',
          args = [AKey key', ABytes s, ABytes b]\<rparr>])"
  by (simp add: encrypt_def decrypt_def sign_def verify_def check_key_def usages_includes_def
      invoke_def)

theorem provider_call_arguments_witness:
  "normalize example_algorithms ''encrypt'' aes_gcm_params = Inr AES_GCM
   \<and> normalize example_algorithms ''decrypt'' aes_gcm_params = Inr AES_GCM
   \<and> slice (Buffer [1, 2, 3]) = Inr [1, 2, 3] \<and> slice (Buffer [1]) = Inr [1]
   \<and> name AES_GCM = name (algorithm aes_key)
   \<and> usages aes_key = Some [''encrypt'', ''decrypt'', ''wrapKey'']
   \<and> ''encrypt'' \<in> set (methods AES_GCM) \<and> ''decrypt'' \<in> set (methods AES_GCM)
   \<and> normalize example_algorithms ''sign'' hmac_params = Inr HMAC
   \<and> normalize example_algorithms ''verify'' hmac_params = Inr HMAC
   \<and> name HMAC = name (algorithm hmac_key)
   \<and> usages hmac_key = Some [''sign'', ''verify'']
   \<and> ''sign'' \<in> set (methods HMAC) \<and> ''verify'' \<in> set (methods HMAC)
   \<and> snd (encrypt example_algorithms example_provider aes_gcm_params aes_key
          (Buffer [1, 2, 3])) =
        [\<lparr>receiver = AES_GCM, method_name = ''encrypt'',
          args = [AVal aes_gcm_params, AKey aes_key, ABytes [1, 2, 3]]\<rparr>]
   \<and> snd (decrypt example_algorithms example_provider aes_gcm_params aes_key
          (Buffer [1, 2, 3])) =
        [\<lparr>receiver = AES_GCM, method_name = ''decrypt'',
          args = [AVal aes_gcm_params, AKey aes_key, ABytes [1, 2, 3]]\<rparr>]
   \<and> snd (sign example_algorithms example_provider hmac_params hmac_key (Buffer [1, 2, 3])) =
        [\<lparr>receiver = HMAC, method_name = ''sign'', args = [AKey hmac_key, ABytes [1, 2, 3]]\<rparr>]
   \<and> snd (verify example_algorithms example_provider hmac_params hmac_key (Buffer [1])
          (Buffer [1, 2, 3])) =
        [\<lparr>receiver = HMAC, method_name = ''verify'',
          args = [AKey hmac_key, ABytes [1], ABytes [1, 2, 3]]\<rparr>]"
proof -
  have a: "name AES_GCM = name (algorithm aes_key)"
    "usages aes_key = Some [''encrypt'', ''decrypt'', ''wrapKey'']"
    by (simp_all add: aes_key_def)
  have b: "name HMAC = name (algorithm hmac_key)" "usages hmac_key = Some [''sign'', ''verify'']"
    by (simp_all add: hmac_key_def)
  have m: "''encrypt'' \<in> set (methods AES_GCM)" "''decrypt'' \<in> set (methods AES_GCM)"
    "''sign'' \<in> set (methods HMAC)" "''verify'' \<in> set (methods HMAC)"
    by (simp_all add: AES_GCM_def HMAC_def)
  have s: "slice (Buffer [1, 2, 3]) = Inr [1, 2, 3]" "slice (Buffer [1]) = Inr [1]"
    by simp_all
  show ?thesis
    using provider_call_arguments [of example_algorithms aes_gcm_params AES_GCM
        "Buffer [1, 2, 3]" "[1, 2, 3]" aes_key
        "[''encrypt'', ''decrypt'', ''wrapKey'']" example_provider
        hmac_params HMAC hmac_key "[''sign'', ''verify'']" "Buffer [1]" "[1]"]
      a b m s example_normalize_values
    by simp
qed

subsection \<open>exportKey and the extractable flag\<close>

text \<open>
  C2, as the spec states it, fails: a key that is not extractable and whose algorithm
  has no registered export capability is rejected with NotSupportedError, as the
  registration is checked first.
\<close>

theorem exportKey_unregistered_counterexample:
  "extractable foreign_key = JBoolean False
   \<and> exportKey example_algorithms example_provider ''raw'' foreign_key =
        (Promise (Rejected (NotSupportedError ''ChaCha20'')), [])
   \<and> fst (exportKey example_algorithms example_provider ''raw'' foreign_key) \<noteq>
        Promise (Rejected (InvalidAccessError ''Key is not extractable''))"
  by (simp add: exportKey_def foreign_key_def example_registered_values)

text \<open>
  C2, amended. For every key whose extractable flag equals false, exportKey never
  invokes the provider's export routine and its promise rejects: with
  InvalidAccessError when the key's algorithm has a registered export capability, with
  NotSupportedError (carrying the algorithm name) when it has none.
\<close>

theorem exportKey_not_extractable:
  "extractable key = JBoolean False \<Longrightarrow>
   exportKey sa prov format key =
     (Promise (Rejected
        (if registered sa ''exportKey'' (name (algorithm key))
         then InvalidAccessError ''Key is not extractable''
         else NotSupportedError (name (algorithm key)))), [])"
  by (simp add: exportKey_def)

theorem exportKey_not_extractable_witness:
  "extractable hmac_key = JBoolean False
   \<and> registered example_algorithms ''exportKey'' (name (algorithm hmac_key))
   \<and> exportKey example_algorithms example_provider ''raw'' hmac_key =
        (Promise (Rejected (InvalidAccessError ''Key is not extractable'')), [])"
proof -
  have e: "extractable hmac_key = JBoolean False"
    by (simp add: hmac_key_def)
  have r: "registered example_algorithms ''exportKey'' (name (algorithm hmac_key))"
    by (simp add: hmac_key_def HMAC_def example_registered_values)
  show ?thesis
    using exportKey_not_extractable [OF e, of example_algorithms example_provider "''raw''"] e r
    by simp
qed

subsection \<open>The operations without a body\<close>

text \<open>
  C3 fails on the code: each of deriveKey, deriveBits and unwrapKey calls the Promise
  constructor without an executor, so for every input the call throws a TypeError
  synchronously and no promise is returned.
\<close>

theorem derive_and_unwrap_throw:
  "deriveKey alg baseKey derivedKeyType extractable' keyUsages = Thrown RuntimeTypeError
   \<and> deriveBits alg baseKey len = Thrown RuntimeTypeError
   \<and> unwrapKey format wrappedKey unwrappingKey unwrapAlgorithm unwrappedKeyAlgorithm
        exractable keyUsages = Thrown RuntimeTypeError"
  by (simp add: deriveKey_def deriveBits_def unwrapKey_def)

subsection \<open>Usages of a generated and of an imported key\<close>

text \<open>
  generateKey checks the key it resolves with: a secret or private key that the provider
  returned and the promise fulfils with has usages.
\<close>

lemma generateKey_resolved_key_has_usages:
  assumes "normalize sa ''generateKey'' alg = Inr n"
    and "provider_generateKey prov n alg extractable' keyUsages = Returns result"
    and "fst (generateKey sa prov alg extractable' keyUsages) = Promise (Fulfilled (GKey k))"
    and "type k = ''secret'' \<or> type k = ''private''"
  shows "\<exists>us. usages k = Some us \<and> us \<noteq> []"
proof -
  have m: "''generateKey'' \<in> set (methods n)"
    using assms(1,3) by (auto simp add: generateKey_def invoke_def split: if_splits)
  have "new_Promise (Some (generateKey_result result)) = Promise (Fulfilled (GKey k))"
    using assms(1-3) m by (simp add: generateKey_def invoke_def)
  then have "result = GKey k" and "\<not> (restricted k \<and> emptyUsages k)"
    by (cases result; simp split: if_splits)+
  with assms(4) show ?thesis
    by (cases "usages k") (simp_all add: restricted_def emptyUsages_def)
qed

text \<open>
  A promise returned by the provider's generateKey is not checked: generateKey follows
  it, whatever key it fulfils with.
\<close>

lemma generateKey_promise_unchecked:
  assumes "normalize sa ''generateKey'' alg = Inr n"
    and "''generateKey'' \<in> set (methods n)"
    and "provider_generateKey prov n alg extractable' keyUsages = ReturnsPromise p"
  shows "fst (generateKey sa prov alg extractable' keyUsages) = Promise p"
  using assms by (simp add: generateKey_def invoke_def)

text \<open>
  importKey resolves with the key of the provider after overwriting its usages with the
  normalized usages of the caller.
\<close>

lemma importKey_resolves_with_normalized_usages:
  assumes "normalize sa ''importKey'' alg = Inr n"
    and "importKey_keyData h format keyData = Inr keyData'"
    and "provider_importKey prov n format keyData' alg extractable' keyUsages = Returns result"
    and "fst (importKey sa prov h format keyData alg extractable' keyUsages) =
           Promise (Fulfilled k)"
  shows "usages k = Some (recognizedKeyUsages_normalize h keyUsages)
    \<and> extractable k = extractable'
    \<and> type k = type result"
proof -
  have m: "''importKey'' \<in> set (methods n)"
    using assms(1,2,4) by (auto simp add: importKey_def invoke_def split: if_splits)
  have "new_Promise (Some (importKey_result h extractable' keyUsages result)) =
          Promise (Fulfilled k)"
    using assms m by (simp add: importKey_def invoke_def)
  then show ?thesis
    by (auto simp add: importKey_result_def split: if_splits)
qed

text \<open>
  C4 fails on the code of importKey: the emptiness check reads the usages of the key as
  the provider returned it, and the usages are then overwritten with the normalized
  usages of the caller. With a provider that stores the usages it is given and the
  unrecognized usage \<open>wrap\<close>, the check passes and the promise fulfils with a secret key
  whose usages are empty; so it does with a provider that gives the key usages of its own
  when the caller passes none.
\<close>

theorem importKey_returns_empty_usages:
  "provider_importKey example_provider AES_GCM ''raw'' (KBytes [1, 2]) aes_gcm_params
     (JBoolean True) [''wrap''] =
     Returns \<lparr>type = ''secret'', extractable = JBoolean True, algorithm = AES_GCM,
              usages = Some [''wrap''], handle = [1, 2]\<rparr>
   \<and> fst (importKey example_algorithms example_provider example_host ''raw'' (KBytes [1, 2])
          aes_gcm_params (JBoolean True) [''wrap'']) =
     Promise (Fulfilled \<lparr>type = ''secret'', extractable = JBoolean True, algorithm = AES_GCM,
                         usages = Some [], handle = [1, 2]\<rparr>)
   \<and> provider_importKey defaulting_provider AES_GCM ''raw'' (KBytes [1, 2]) aes_gcm_params
     (JBoolean True) [] =
     Returns \<lparr>type = ''secret'', extractable = JBoolean True, algorithm = AES_GCM,
              usages = Some [''encrypt'', ''decrypt''], handle = [1, 2]\<rparr>
   \<and> fst (importKey example_algorithms defaulting_provider example_host ''raw'' (KBytes [1, 2])
          aes_gcm_params (JBoolean True) []) =
     Promise (Fulfilled \<lparr>type = ''secret'', extractable = JBoolean True, algorithm = AES_GCM,
                         usages = Some [], handle = [1, 2]\<rparr>)"
  by (simp add: importKey_def importKey_keyData_def instanceof_JsonWebKey_def
      invoke_def importKey_result_def emptyUsages_def recognizedKeyUsages_normalize_def
      example_normalize_values example_algorithm_fields example_provider_fields
      defaulting_provider_fields defaulting_importKey_def
      example_importKey_def example_host_def)

subsection \<open>Errors of the provider\<close>

text \<open>
  An executor that resolves with the provider's completion forwards an exception and a
  rejection; encrypt and exportKey do so, while wrapKey drops an error of the export.
\<close>

lemma resolve_call_forwards:
  "c = Throws e \<or> c = ReturnsPromise (Rejected e) \<Longrightarrow>
   new_Promise (Some (resolve_call c)) = Promise (Rejected e)
   \<and> new_Promise (Some (try_resolve_call c)) = Promise (Rejected e)"
  by auto

lemma encrypt_forwards_provider_error:
  assumes "normalize sa ''encrypt'' alg = Inr n"
    and "check_key n key ''encrypt'' = None"
    and "''encrypt'' \<in> set (methods n)"
    and "provider_encrypt prov n alg key b = Throws e
         \<or> provider_encrypt prov n alg key b = ReturnsPromise (Rejected e)"
    and "slice data = Inr b"
  shows "fst (encrypt sa prov alg key data) = Promise (Rejected e)"
  using assms resolve_call_forwards [OF assms(4)]
  by (simp add: encrypt_def invoke_def)

lemma exportKey_forwards_provider_error:
  assumes "registered sa ''exportKey'' (name (algorithm key))"
    and "extractable key \<noteq> JBoolean False"
    and "''exportKey'' \<in> set (methods (algorithm key))"
    and "provider_exportKey prov (algorithm key) format key = Throws e
         \<or> provider_exportKey prov (algorithm key) format key = ReturnsPromise (Rejected e)"
  shows "fst (exportKey sa prov format key) = Promise (Rejected e)"
  using assms resolve_call_forwards [OF assms(4)]
  by (simp add: exportKey_def invoke_def)

lemma wrapKey_drops_provider_error:
  assumes "wrapKey_normalize sa wrapAlgorithm = Inr n"
    and "name n = name (algorithm wrappingKey)"
    and "usages wrappingKey = Some us"
    and "''wrapKey'' \<in> set us"
    and "registered sa ''exportKey'' (name (algorithm key))"
    and "extractable key \<noteq> JBoolean False"
    and "''exportKey'' \<in> set (methods (algorithm key))"
    and "provider_exportKey prov (algorithm key) format key = Throws e
         \<or> provider_exportKey prov (algorithm key) format key = ReturnsPromise (Rejected e)"
  shows "fst (wrapKey sa prov h format key wrappingKey wrapAlgorithm) = Promise Pending"
proof -
  have "exportKey sa prov format key =
      (Promise (Rejected e),
       [\<lparr>receiver = algorithm key, method_name = ''exportKey'',
          args = [AFormat format, AKey key]\<rparr>])"
    using assms(5-7) resolve_call_forwards [OF assms(8)]
    by (simp add: exportKey_def invoke_def)
  then show ?thesis
    using assms(1-6)
    by (simp add: wrapKey_def wrapKey_executor_def wrapKey_export_def usages_includes_def)
qed

text \<open>
  C5 fails on the code of wrapKey: when the provider's exportKey throws, the promise of
  exportKey rejects with that error, but in wrapKey the rejection ends in the chain
  \<open>.then(...).then(resolve)\<close>, which has no rejection handler: the promise wrapKey
  returned is never settled. The same happens when the provider's wrapKey returns a
  promise that rejects.
\<close>

theorem wrapKey_provider_error_left_pending:
  "provider_exportKey example_provider AES_GCM ''pkcs8'' aes_key =
     Throws (ProviderError ''unsupported key format'')
   \<and> fst (exportKey example_algorithms example_provider ''pkcs8'' aes_key) =
     Promise (Rejected (ProviderError ''unsupported key format''))
   \<and> wrapKey example_algorithms example_provider example_host ''pkcs8'' aes_key kw_key
       aes_kw_params =
     (Promise Pending,
      [\<lparr>receiver = AES_GCM, method_name = ''exportKey'', args = [AFormat ''pkcs8'', AKey aes_key]\<rparr>])
   \<and> provider_wrapKey rejecting_provider AES_KW aes_kw_params kw_key [1, 2, 3, 4] =
     ReturnsPromise (Rejected (ProviderError ''wrap failed''))
   \<and> fst (wrapKey example_algorithms rejecting_provider example_host ''raw'' aes_key kw_key
       aes_kw_params) = Promise Pending"
proof -
  have x: "exportKey example_algorithms example_provider ''pkcs8'' aes_key =
     (Promise (Rejected (ProviderError ''unsupported key format'')),
      [\<lparr>receiver = AES_GCM, method_name = ''exportKey'', args = [AFormat ''pkcs8'', AKey aes_key]\<rparr>])"
    by (simp add: exportKey_def invoke_def example_key_fields example_algorithm_fields
        example_registered_values example_provider_fields example_exportKey_def)
  have y: "exportKey example_algorithms rejecting_provider ''raw'' aes_key =
     (Promise (Fulfilled (EBytes [1, 2, 3, 4])),
      [\<lparr>receiver = AES_GCM, method_name = ''exportKey'', args = [AFormat ''raw'', AKey aes_key]\<rparr>])"
    by (simp add: exportKey_def invoke_def example_key_fields example_algorithm_fields
        example_registered_values rejecting_provider_fields example_exportKey_def)
  have w1: "wrapKey example_algorithms example_provider example_host ''pkcs8'' aes_key kw_key
       aes_kw_params =
     (Promise Pending,
      [\<lparr>receiver = AES_GCM, method_name = ''exportKey'', args = [AFormat ''pkcs8'', AKey aes_key]\<rparr>])"
    by (simp add: wrapKey_def wrapKey_normalize_def wrapKey_executor_def wrapKey_export_def
        usages_includes_def x example_normalize_values example_key_fields
        example_algorithm_fields example_registered_values)
  have w2: "fst (wrapKey example_algorithms rejecting_provider example_host ''raw'' aes_key kw_key
       aes_kw_params) = Promise Pending"
    by (simp add: wrapKey_def wrapKey_normalize_def wrapKey_executor_def wrapKey_export_def
        wrapKey_then_def wrapKey_serialize_def invoke_def
        usages_includes_def y example_normalize_values example_key_fields
        example_algorithm_fields example_registered_values rejecting_provider_fields
        example_property_truthy)
  show ?thesis
    by (simp add: x w1 w2 example_provider_fields example_exportKey_def
        rejecting_provider_fields)
qed

subsection \<open>The normalization of wrapKey\<close>

text \<open>
  C6. wrapKey normalizes wrapAlgorithm against the operation name wrapKey first; when
  that succeeds the executor runs with its result. When it fails, wrapAlgorithm is
  normalized against encrypt, and the executor runs with that result. When both fail,
  the returned promise rejects with the error of the second normalization, and no
  provider call is made.
\<close>

theorem wrapKey_normalization_order:
  "(normalize sa ''wrapKey'' wrapAlgorithm = Inr n \<longrightarrow>
      wrapKey sa prov h format key wrappingKey wrapAlgorithm =
        (new_Promise (Some (fst (wrapKey_executor sa prov h format key wrappingKey wrapAlgorithm n))),
         snd (wrapKey_executor sa prov h format key wrappingKey wrapAlgorithm n)))
   \<and> (normalize sa ''wrapKey'' wrapAlgorithm = Inl e1 \<longrightarrow>
      normalize sa ''encrypt'' wrapAlgorithm = Inr n \<longrightarrow>
      wrapKey sa prov h format key wrappingKey wrapAlgorithm =
        (new_Promise (Some (fst (wrapKey_executor sa prov h format key wrappingKey wrapAlgorithm n))),
         snd (wrapKey_executor sa prov h format key wrappingKey wrapAlgorithm n)))
   \<and> (normalize sa ''wrapKey'' wrapAlgorithm = Inl e1 \<longrightarrow>
      normalize sa ''encrypt'' wrapAlgorithm = Inl e2 \<longrightarrow>
      wrapKey sa prov h format key wrappingKey wrapAlgorithm = (Promise (Rejected e2), []))"
  by (simp add: wrapKey_def wrapKey_normalize_def Promise_reject_def split_beta)

theorem wrapKey_normalization_order_witness:
  "normalize example_algorithms ''wrapKey'' aes_kw_params = Inr AES_KW
   \<and> wrapKey example_algorithms example_provider example_host ''raw'' aes_key kw_key
        aes_kw_params =
       (Promise (Fulfilled [4, 3, 2, 1]),
        [\<lparr>receiver = AES_GCM, method_name = ''exportKey'', args = [AFormat ''raw'', AKey aes_key]\<rparr>,
         \<lparr>receiver = AES_KW, method_name = ''wrapKey'',
           args = [AVal aes_kw_params, AKey kw_key, ABytes [1, 2, 3, 4]]\<rparr>])
   \<and> normalize example_algorithms ''wrapKey'' aes_gcm_params = Inl (NotSupportedError ''AES-GCM'')
   \<and> normalize example_algorithms ''encrypt'' aes_gcm_params = Inr AES_GCM
   \<and> wrapKey example_algorithms example_provider example_host ''raw'' aes_key aes_key
        aes_gcm_params =
       (Promise (Fulfilled [4, 3, 2, 1]),
        [\<lparr>receiver = AES_GCM, method_name = ''exportKey'', args = [AFormat ''raw'', AKey aes_key]\<rparr>,
         \<lparr>receiver = AES_GCM, method_name = ''encrypt'',
           args = [AVal aes_gcm_params, AKey aes_key, ABytes [1, 2, 3, 4]]\<rparr>])
   \<and> normalize example_algorithms ''wrapKey'' hmac_params = Inl (NotSupportedError ''HMAC'')
   \<and> normalize example_algorithms ''encrypt'' hmac_params = Inl (NotSupportedError ''HMAC'')
   \<and> wrapKey example_algorithms example_provider example_host ''raw'' aes_key kw_key
        hmac_params = (Promise (Rejected (NotSupportedError ''HMAC'')), [])"
  using
    wrapKey_normalization_order [of example_algorithms aes_kw_params AES_KW example_provider
      example_host "''raw''" aes_key kw_key]
    wrapKey_normalization_order [of example_algorithms aes_gcm_params AES_GCM example_provider
      example_host "''raw''" aes_key aes_key "NotSupportedError ''AES-GCM''"]
    wrapKey_normalization_order [of example_algorithms hmac_params _ example_provider
      example_host "''raw''" aes_key kw_key "NotSupportedError ''HMAC''"
      "NotSupportedError ''HMAC''"]
  by (simp add: example_normalize_values
      wrapKey_executor_aes_kw_raw wrapKey_executor_aes_gcm_raw)

subsection \<open>Algorithm and key must match\<close>




subsection \<open>The extractable flag, strictly\<close>

text \<open>
  C8. The extractability check of exportKey fails only for the boolean false: for every
  key whose \<open>extractable\<close> is undefined (or absent) or any other value, and whose
  algorithm has a registered export capability (the name is registered for exportKey
  and the algorithm object has the method), the provider's export is invoked with the
  format and the key, and the promise settles as that call completes.
\<close>

theorem exportKey_extractable_unless_false:
  "extractable key \<noteq> JBoolean False \<Longrightarrow>
   registered sa ''exportKey'' (name (algorithm key)) \<Longrightarrow>
   ''exportKey'' \<in> set (methods (algorithm key)) \<Longrightarrow>
   exportKey sa prov format key =
     (new_Promise (Some (try_resolve_call (provider_exportKey prov (algorithm key) format key))),
      [\<lparr>receiver = algorithm key, method_name = ''exportKey'', args = [AFormat format, AKey key]\<rparr>])"
  by (simp add: exportKey_def invoke_def)

theorem exportKey_extractable_unless_false_witness:
  "extractable kw_key = JUndefined \<and> extractable kw_key \<noteq> JBoolean False
   \<and> registered example_algorithms ''exportKey'' (name (algorithm kw_key))
   \<and> ''exportKey'' \<in> set (methods (algorithm kw_key))
   \<and> exportKey example_algorithms example_provider ''raw'' kw_key =
        (Promise (Fulfilled (EBytes [9, 9, 9, 9])),
         [\<lparr>receiver = AES_KW, method_name = ''exportKey'', args = [AFormat ''raw'', AKey kw_key]\<rparr>])"
proof -
  have e: "extractable kw_key \<noteq> JBoolean False" "extractable kw_key = JUndefined"
    by (simp_all add: kw_key_def)
  have r: "registered example_algorithms ''exportKey'' (name (algorithm kw_key))"
    by (simp add: kw_key_def AES_KW_def example_registered_values)
  have m: "''exportKey'' \<in> set (methods (algorithm kw_key))"
    by (simp add: kw_key_def AES_KW_def)
  have a: "algorithm kw_key = AES_KW" "handle kw_key = [9, 9, 9, 9]"
    by (simp_all add: kw_key_def)
  have p: "provider_exportKey example_provider AES_KW ''raw'' kw_key = Returns (EBytes [9, 9, 9, 9])"
    by (simp add: example_provider_fields example_exportKey_def a)
  show ?thesis
    using exportKey_extractable_unless_false [OF e(1) r m, of example_provider "''raw''"] e r m
    by (simp add: a p)
qed

subsection \<open>wrapKey with an unknown format\<close>





subsection \<open>The shape check of importKey\<close>




end
